theory Spec2Isabelle
  imports Complex_Main
begin

section \<open>JavaScript values\<close>

text \<open>
  The program is TypeScript. A \<open>number\<close> is modelled as a real; the two values of the
  language that are not reals and that the modelled code can produce, \<open>NaN\<close> and
  \<open>undefined\<close>, are constructors of their own. The array \<open>d\<close> that
  \<open>getSvgPathFromStroke\<close> builds holds strings and numbers, so its elements are
  \<open>jsval\<close>s.
\<close>

datatype jsval = Str string | Num real | NaN | Undefined

text \<open>\<open>arr[i]\<close> on an array of numbers: reading past the end gives \<open>undefined\<close>.\<close>

definition nth_js :: "real list \<Rightarrow> nat \<Rightarrow> jsval" where
  "nth_js p i = (if i < length p then Num (p ! i) else Undefined)"

text \<open>
  \<open>a + b\<close>, \<open>a - b\<close> and \<open>a / 2\<close> on operands that are numbers or
  \<open>undefined\<close> (the only operands the modelled code has): \<open>undefined\<close>
  converts to \<open>NaN\<close>, and \<open>NaN\<close> is absorbing.
\<close>

fun js_add :: "jsval \<Rightarrow> jsval \<Rightarrow> jsval" where
  "js_add (Num a) (Num b) = Num (a + b)"
| "js_add _ _ = NaN"

fun js_sub :: "jsval \<Rightarrow> jsval \<Rightarrow> jsval" where
  "js_sub (Num a) (Num b) = Num (a - b)"
| "js_sub _ _ = NaN"

fun js_half :: "jsval \<Rightarrow> jsval" where
  "js_half (Num a) = Num (a / 2)"
| "js_half _ = NaN"

text \<open>\<open>Math.hypot(a, b)\<close> and \<open>a < b\<close>; a comparison with \<open>NaN\<close> is false.\<close>

fun hypot :: "jsval \<Rightarrow> jsval \<Rightarrow> jsval" where
  "hypot (Num a) (Num b) = Num (sqrt (a\<^sup>2 + b\<^sup>2))"
| "hypot _ _ = NaN"

fun js_lt :: "jsval \<Rightarrow> jsval \<Rightarrow> bool" where
  "js_lt (Num a) (Num b) = (a < b)"
| "js_lt _ _ = False"

text \<open>
  \<open>Array.prototype.join\<close>: every element is converted to a string, \<open>undefined\<close>
  to the empty string, and the separator is put between the elements. The conversion of
  a number to a string is the language's own \<open>Number::toString\<close>; it is a parameter
  \<open>fmt\<close> of the model.
\<close>

fun toStr :: "(real \<Rightarrow> string) \<Rightarrow> jsval \<Rightarrow> string" where
  "toStr fmt (Str s) = s"
| "toStr fmt (Num r) = fmt r"
| "toStr fmt NaN = ''NaN''"
| "toStr fmt Undefined = ''''"

fun join :: "string \<Rightarrow> string list \<Rightarrow> string" where
  "join sep [] = ''''"
| "join sep [x] = x"
| "join sep (x # y # zs) = x @ sep @ join sep (y # zs)"

section \<open>Path codec: encode\<close>

text \<open>
  \<^verbatim>\<open>
  getSvgPathFromStroke(stroke: number[][]): string {
    if (!stroke.length) return '';
    const d = stroke.reduce(
      (acc, [x0, y0], i, _arr) => {
        const [x1, y1] = _arr[(i + 1) % _arr.length];
        acc.push(x0, y0, (x0 + x1) / 2, (y0 + y1) / 2);
        return acc;
      },
      ['M', ...stroke[0], 'Q'],
    );
    d.push('Z');
    return d.join(' ');
  }
  \<close>
  \<open>pushed arr p i\<close> is what one call of the reducer pushes for the element \<open>p\<close> at
  index \<open>i\<close>. The reducer only runs on a non-empty array with \<open>i\<close> in range, so
  the read \<open>_arr[(i + 1) % _arr.length]\<close> is in range.
\<close>

definition pushed :: "real list list \<Rightarrow> real list \<Rightarrow> nat \<Rightarrow> jsval list" where
  "pushed arr p i =
     (let x0 = nth_js p 0; y0 = nth_js p 1;
          q = arr ! ((i + 1) mod length arr);
          x1 = nth_js q 0; y1 = nth_js q 1
      in [x0, y0, js_half (js_add x0 x1), js_half (js_add y0 y1)])"

definition reduce_stroke :: "real list list \<Rightarrow> jsval list \<Rightarrow> jsval list" where
  "reduce_stroke arr init =
     foldl (\<lambda>acc (p, i). acc @ pushed arr p i) init (zip arr [0..<length arr])"

definition path_data :: "real list list \<Rightarrow> jsval list" where
  "path_data stroke =
     (case stroke of
        [] \<Rightarrow> []
      | p0 # _ \<Rightarrow> reduce_stroke stroke ([Str ''M''] @ map Num p0 @ [Str ''Q'']) @ [Str ''Z''])"

definition getSvgPathFromStroke :: "(real \<Rightarrow> string) \<Rightarrow> real list list \<Rightarrow> string" where
  "getSvgPathFromStroke fmt stroke =
     (if length stroke = 0 then ''''
      else join '' '' (map (toStr fmt) (path_data stroke)))"

subsection \<open>The path as the specification describes it\<close>

text \<open>
  A ring is a list of 2-D points. The path starts with a moveto to the first point and has,
  for the ring point at every index, the point itself as control point and the midpoint
  between it and its cyclic successor as endpoint; it ends with a close-path.
\<close>

definition midpoint2 :: "real \<times> real \<Rightarrow> real \<times> real \<Rightarrow> real \<times> real" where
  "midpoint2 a b = ((fst a + fst b) / 2, (snd a + snd b) / 2)"

definition quad_segment :: "(real \<times> real) list \<Rightarrow> nat \<Rightarrow> jsval list" where
  "quad_segment ring i =
     (let c = ring ! i; e = midpoint2 c (ring ! (Suc i mod length ring))
      in [Num (fst c), Num (snd c), Num (fst e), Num (snd e)])"

definition ring_path :: "(real \<times> real) list \<Rightarrow> jsval list" where
  "ring_path ring =
     [Str ''M'', Num (fst (hd ring)), Num (snd (hd ring)), Str ''Q'']
       @ concat (map (quad_segment ring) [0..<length ring]) @ [Str ''Z'']"

definition xy :: "real \<times> real \<Rightarrow> real list" where
  "xy a = [fst a, snd a]"

section \<open>Easing catalog\<close>

text \<open>
  The table \<open>EASINGS\<close>, in the order of the object literal. \<open>Math.pow\<close> with a
  literal integer exponent is a power; with base 2 and a real exponent it is \<open>powr\<close>.
\<close>

definition linear :: "real \<Rightarrow> real" where
  "linear t = t"

definition easeInQuad :: "real \<Rightarrow> real" where
  "easeInQuad t = t * t"

definition easeOutQuad :: "real \<Rightarrow> real" where
  "easeOutQuad t = t * (2 - t)"

definition easeInOutQuad :: "real \<Rightarrow> real" where
  "easeInOutQuad t = (if t < 0.5 then 2 * t * t else - 1 + (4 - 2 * t) * t)"

definition easeInCubic :: "real \<Rightarrow> real" where
  "easeInCubic t = t * t * t"

definition easeOutCubic :: "real \<Rightarrow> real" where
  "easeOutCubic t = 1 - (1 - t) ^ 3"

definition easeInOutCubic :: "real \<Rightarrow> real" where
  "easeInOutCubic t = (if t < 0.5 then 4 * t * t * t else 1 - (- 2 * t + 2) ^ 3 / 2)"

definition easeInQuart :: "real \<Rightarrow> real" where
  "easeInQuart t = t * t * t * t"

definition easeOutQuart :: "real \<Rightarrow> real" where
  "easeOutQuart t = 1 - (1 - t) ^ 4"

definition easeInOutQuart :: "real \<Rightarrow> real" where
  "easeInOutQuart t = (if t < 0.5 then 8 * t * t * t * t else 1 - (- 2 * t + 2) ^ 4 / 2)"

definition easeInQuint :: "real \<Rightarrow> real" where
  "easeInQuint t = t * t * t * t * t"

definition easeOutQuint :: "real \<Rightarrow> real" where
  "easeOutQuint t = 1 - (1 - t) ^ 5"

definition easeInOutQuint :: "real \<Rightarrow> real" where
  "easeInOutQuint t = (if t < 0.5 then 16 * t * t * t * t * t else 1 - (- 2 * t + 2) ^ 5 / 2)"

definition easeInSine :: "real \<Rightarrow> real" where
  "easeInSine t = 1 - cos ((t * pi) / 2)"

definition easeOutSine :: "real \<Rightarrow> real" where
  "easeOutSine t = sin ((t * pi) / 2)"

definition easeInOutSine :: "real \<Rightarrow> real" where
  "easeInOutSine t = - (cos (pi * t) - 1) / 2"

definition easeInExpo :: "real \<Rightarrow> real" where
  "easeInExpo t = (if t = 0 then 0 else 2 powr (10 * t - 10))"

definition easeOutExpo :: "real \<Rightarrow> real" where
  "easeOutExpo t = (if t = 1 then 1 else 1 - 2 powr (- 10 * t))"

definition easeInOutExpo :: "real \<Rightarrow> real" where
  "easeInOutExpo t =
     (if t = 0 then 0
      else if t = 1 then 1
      else if t < 0.5 then 2 powr (20 * t - 10) / 2
      else (2 - 2 powr (- 20 * t + 10)) / 2)"

definition EASINGS :: "(string \<times> (real \<Rightarrow> real)) list" where
  "EASINGS =
     [(''linear'', linear),
      (''easeInQuad'', easeInQuad),
      (''easeOutQuad'', easeOutQuad),
      (''easeInOutQuad'', easeInOutQuad),
      (''easeInCubic'', easeInCubic),
      (''easeOutCubic'', easeOutCubic),
      (''easeInOutCubic'', easeInOutCubic),
      (''easeInQuart'', easeInQuart),
      (''easeOutQuart'', easeOutQuart),
      (''easeInOutQuart'', easeInOutQuart),
      (''easeInQuint'', easeInQuint),
      (''easeOutQuint'', easeOutQuint),
      (''easeInOutQuint'', easeInOutQuint),
      (''easeInSine'', easeInSine),
      (''easeOutSine'', easeOutSine),
      (''easeInOutSine'', easeInOutSine),
      (''easeInExpo'', easeInExpo),
      (''easeOutExpo'', easeOutExpo),
      (''easeInOutExpo'', easeInOutExpo)]"

text \<open>\<open>Object.keys(EASINGS)\<close>, the source of the component's \<open>easingOptions\<close>.\<close>

definition easingKeys :: "string list" where
  "easingKeys = map fst EASINGS"

text \<open>
  \<open>EASINGS[name]\<close>. The table is a plain object literal, so a name that is no key of
  its own is looked up on \<open>Object.prototype\<close>: the read gives that member for the
  names below and \<open>undefined\<close> for every other name. It never throws.
\<close>

datatype easing_ref = Easing "real \<Rightarrow> real" | Inherited string | NoEasing

definition objectPrototypeKeys :: "string list" where
  "objectPrototypeKeys =
     [''constructor'', ''hasOwnProperty'', ''isPrototypeOf'', ''propertyIsEnumerable'',
      ''toLocaleString'', ''toString'', ''valueOf'', ''__proto__'',
      ''__defineGetter__'', ''__defineSetter__'', ''__lookupGetter__'', ''__lookupSetter__'']"

definition easingAt :: "string \<Rightarrow> easing_ref" where
  "easingAt name =
     (case map_of EASINGS name of
        Some f \<Rightarrow> Easing f
      | None \<Rightarrow> if name \<in> set objectPrototypeKeys then Inherited name else NoEasing)"

section \<open>Data model\<close>

record DrawingStroke =
  points :: "real list list"
  path :: string
  color :: string
  opacity :: jsval
  outlineColor :: string
  outlineWidth :: jsval

text \<open>
  \<open>ToolConfig\<close> with its nested \<open>start\<close>/\<open>end\<close> and \<open>outline\<close> objects, and
  \<open>EraserConfig\<close>. Field names that several interfaces share carry a suffix.
\<close>

record TaperConfig =
  taper :: real
  easing_tp :: string

record OutlineConfig =
  color_ol :: string
  width_ol :: real

record ToolConfig =
  color_t :: string
  size_t :: real
  opacity_t :: real
  thinning :: real
  streamline :: real
  smoothing :: real
  easing :: string
  start_t :: TaperConfig
  end_t :: TaperConfig
  outline :: OutlineConfig

record EraserConfig =
  size_e :: real

datatype ToolName = Pen1 | Pen2 | Highlighter | Eraser

record Tools =
  pen1 :: ToolConfig
  pen2 :: ToolConfig
  highlighter :: ToolConfig
  eraser :: EraserConfig

text \<open>
  \<open>this.tools[this.activeTool] as ToolConfig\<close>: the three drawing slots hold a
  \<open>ToolConfig\<close>; the eraser slot does not.
\<close>

fun toolAt :: "Tools \<Rightarrow> ToolName \<Rightarrow> ToolConfig option" where
  "toolAt ts Pen1 = Some (pen1 ts)"
| "toolAt ts Pen2 = Some (pen2 ts)"
| "toolAt ts Highlighter = Some (highlighter ts)"
| "toolAt ts Eraser = None"

definition getDefaultTool :: "string \<Rightarrow> real \<Rightarrow> real \<Rightarrow> ToolConfig" where
  "getDefaultTool c sz op =
     \<lparr>color_t = c, size_t = sz, opacity_t = op,
      thinning = 0.5, streamline = 0.5, smoothing = 0.23, easing = ''linear'',
      start_t = \<lparr>taper = 0, easing_tp = ''linear''\<rparr>,
      end_t = \<lparr>taper = 0, easing_tp = ''linear''\<rparr>,
      outline = \<lparr>color_ol = ''#9747ff'', width_ol = 0\<rparr>\<rparr>"

definition defaultTools :: Tools where
  "defaultTools =
     \<lparr>pen1 = getDefaultTool ''#eb454a'' 16 1,
      pen2 = getDefaultTool ''#3b82f6'' 16 1,
      highlighter = getDefaultTool ''#ffeb3b'' 30 0.4,
      eraser = \<lparr>size_e = 40\<rparr>\<rparr>"

text \<open>The fields of \<open>DrawingComponent\<close> that the drawing logic reads and writes.\<close>

record DrawingComponent =
  allStrokes :: "DrawingStroke list"
  redoStack :: "DrawingStroke list"
  activeTool :: ToolName
  currentPoints :: "real list list"
  previewPath :: string
  tools :: Tools

definition initialComponent :: DrawingComponent where
  "initialComponent =
     \<lparr>allStrokes = [], redoStack = [], activeTool = Pen1,
      currentPoints = [], previewPath = '''', tools = defaultTools\<rparr>"

section \<open>Outline builder options\<close>

text \<open>
  \<^verbatim>\<open>
  getLibOptions(tool: ToolConfig): any {
    return {
      size: tool.size, thinning: tool.thinning,
      streamline: tool.streamline, smoothing: tool.smoothing,
      easing: EASINGS[tool.easing],
      start: { taper: tool.start.taper, easing: EASINGS[tool.start.easing], cap: true },
      end: { taper: tool.end.taper, easing: EASINGS[tool.end.easing], cap: true },
    };
  }
  \<close>
  A call either returns a value or is left by an exception: \<open>Thrown e s\<close> is the
  exception \<open>e\<close> together with what the call has left behind (nothing, for a function
  that changes no state). \<open>getLibOptions\<close> itself has no \<open>throw\<close>, and reading a
  property of the object literal \<open>EASINGS\<close> does not throw.
\<close>

record TaperOptions =
  taper_o :: real
  easing_o :: easing_ref
  cap :: bool

record LibOptions =
  size_l :: real
  thinning_l :: real
  streamline_l :: real
  smoothing_l :: real
  easing_l :: easing_ref
  start_l :: TaperOptions
  end_l :: TaperOptions

datatype ('a, 's) outcome = Returned 'a | Thrown string 's

definition getLibOptions :: "ToolConfig \<Rightarrow> (LibOptions, unit) outcome" where
  "getLibOptions tool =
     Returned
       \<lparr>size_l = size_t tool, thinning_l = thinning tool,
        streamline_l = streamline tool, smoothing_l = smoothing tool,
        easing_l = easingAt (easing tool),
        start_l = \<lparr>taper_o = taper (start_t tool),
                   easing_o = easingAt (easing_tp (start_t tool)), cap = True\<rparr>,
        end_l = \<lparr>taper_o = taper (end_t tool),
                 easing_o = easingAt (easing_tp (end_t tool)), cap = True\<rparr>\<rparr>"

text \<open>
  \<^verbatim>\<open>
  generatePreviewPath(points: number[][], tool: ToolConfig): string {
    const strokePoints = getStroke(points, this.getLibOptions(tool));
    return this.getSvgPathFromStroke(strokePoints);
  }
  \<close>
  \<open>getStroke\<close> belongs to the library perfect-freehand, which is not part of this
  repository: it is the parameter \<open>getStroke\<close>. The library call may throw (it calls
  the easing options it is given), so the parameter gives an outcome, and an exception of
  the library leaves \<open>generatePreviewPath\<close> as it is.
\<close>

definition generatePreviewPath ::
  "(real \<Rightarrow> string) \<Rightarrow> (real list list \<Rightarrow> LibOptions \<Rightarrow> (real list list, unit) outcome)
     \<Rightarrow> real list list \<Rightarrow> ToolConfig \<Rightarrow> (string, unit) outcome" where
  "generatePreviewPath fmt getStroke pts tool =
     (case getLibOptions tool of
        Thrown e u \<Rightarrow> Thrown e u
      | Returned opts \<Rightarrow>
          (case getStroke pts opts of
             Thrown e u \<Rightarrow> Thrown e u
           | Returned strokePoints \<Rightarrow> Returned (getSvgPathFromStroke fmt strokePoints)))"

section \<open>Stroke store\<close>

text \<open>
  \<^verbatim>\<open>
  undo() { const s = this.allStrokes.pop(); if (s) this.redoStack.push(s); }
  redo() { const s = this.redoStack.pop(); if (s) this.allStrokes.push(s); }
  clearCanvas() { this.allStrokes = []; this.redoStack = []; }
  \<close>
  Both stacks grow at the tail. \<open>pop\<close> on an empty array returns \<open>undefined\<close> and
  changes nothing; a stroke object is truthy.
\<close>

definition undo :: "DrawingComponent \<Rightarrow> DrawingComponent" where
  "undo c =
     (case rev (allStrokes c) of
        [] \<Rightarrow> c
      | s # _ \<Rightarrow> c\<lparr>allStrokes := butlast (allStrokes c), redoStack := redoStack c @ [s]\<rparr>)"

definition redo :: "DrawingComponent \<Rightarrow> DrawingComponent" where
  "redo c =
     (case rev (redoStack c) of
        [] \<Rightarrow> c
      | s # _ \<Rightarrow> c\<lparr>redoStack := butlast (redoStack c), allStrokes := allStrokes c @ [s]\<rparr>)"

definition clearCanvas :: "DrawingComponent \<Rightarrow> DrawingComponent" where
  "clearCanvas c = c\<lparr>allStrokes := [], redoStack := []\<rparr>"

section \<open>Pointer handlers and erasing\<close>

record PointerEvent =
  clientX :: real
  clientY :: real
  pressure :: real
  buttons :: nat

text \<open>The bounding rectangle of the SVG element, as the browser reports it.\<close>

record DOMRect =
  rect_left :: real
  rect_top :: real

definition getCoords :: "DOMRect \<Rightarrow> PointerEvent \<Rightarrow> real \<times> real" where
  "getCoords rect e = (clientX e - rect_left rect, clientY e - rect_top rect)"

text \<open>
  \<^verbatim>\<open>
  shouldEraseStroke(stroke, x, y, eraserSize): boolean {
    return stroke.points.some((p) => Math.hypot(p[0] - x, p[1] - y) < eraserSize);
  }
  private erase(e: PointerEvent) {
    const { x, y } = this.getCoords(e);
    this.allStrokes = this.allStrokes.filter(
      (s) => !this.drawingService.shouldEraseStroke(s, x, y, this.tools.eraser.size));
  }
  \<close>
\<close>

definition shouldEraseStroke :: "DrawingStroke \<Rightarrow> real \<Rightarrow> real \<Rightarrow> real \<Rightarrow> bool" where
  "shouldEraseStroke stroke x y eraserSize =
     list_ex (\<lambda>p. js_lt (hypot (js_sub (nth_js p 0) (Num x)) (js_sub (nth_js p 1) (Num y)))
                     (Num eraserSize))
       (points stroke)"

definition erase :: "DOMRect \<Rightarrow> DrawingComponent \<Rightarrow> PointerEvent \<Rightarrow> DrawingComponent" where
  "erase rect c e =
     (case getCoords rect e of
        (x, y) \<Rightarrow>
          c\<lparr>allStrokes :=
              filter (\<lambda>s. \<not> shouldEraseStroke s x y (size_e (eraser (tools c)))) (allStrokes c)\<rparr>)"

text \<open>
  \<^verbatim>\<open>
  onPointerDown(e: PointerEvent) {
    if (this.activeTool === 'eraser') { this.erase(e); return; }
    const { x, y } = this.getCoords(e);
    this.currentPoints = [[x, y, e.pressure]];
    this.redoStack = [];
  }
  onPointerMove(e: PointerEvent) {
    if (e.buttons !== 1) return;
    if (this.activeTool === 'eraser') { this.erase(e); return; }
    const { x, y } = this.getCoords(e);
    this.currentPoints = [...this.currentPoints, [x, y, e.pressure]];
    this.previewPath = this.drawingService.generatePreviewPath(
      this.currentPoints, this.tools[this.activeTool] as ToolConfig);
  }
  onPointerUp() {
    if (this.currentPoints.length > 0 && this.activeTool !== 'eraser') {
      const t = this.tools[this.activeTool] as ToolConfig;
      this.allStrokes.push({
        points: [...this.currentPoints], path: this.previewPath,
        color: t.color, opacity: t.opacity,
        outlineColor: t.outline.color, outlineWidth: t.outline.width });
    }
    this.currentPoints = [];
    this.previewPath = '';
  }
  \<close>
\<close>

definition onPointerDown :: "DOMRect \<Rightarrow> DrawingComponent \<Rightarrow> PointerEvent \<Rightarrow> DrawingComponent" where
  "onPointerDown rect c e =
     (if activeTool c = Eraser then erase rect c e
      else case getCoords rect e of
        (x, y) \<Rightarrow> c\<lparr>currentPoints := [[x, y, pressure e]], redoStack := []\<rparr>)"

text \<open>
  A handler returns the component as it has changed it. When the library call in
  \<open>onPointerMove\<close> throws, the handler is left after the assignment to
  \<open>currentPoints\<close> and before the one to \<open>previewPath\<close>: the exception leaves that
  component behind.
\<close>

definition onPointerMove ::
  "(real \<Rightarrow> string) \<Rightarrow> (real list list \<Rightarrow> LibOptions \<Rightarrow> (real list list, unit) outcome)
     \<Rightarrow> DOMRect \<Rightarrow> DrawingComponent \<Rightarrow> PointerEvent
     \<Rightarrow> (DrawingComponent, DrawingComponent) outcome" where
  "onPointerMove fmt getStroke rect c e =
     (if buttons e \<noteq> 1 then Returned c
      else if activeTool c = Eraser then Returned (erase rect c e)
      else case getCoords rect e of
        (x, y) \<Rightarrow>
          (let pts = currentPoints c @ [[x, y, pressure e]] in
           case toolAt (tools c) (activeTool c) of
             None \<Rightarrow> Returned c
           | Some t \<Rightarrow>
               (case generatePreviewPath fmt getStroke pts t of
                  Thrown err u \<Rightarrow> Thrown err (c\<lparr>currentPoints := pts\<rparr>)
                | Returned d \<Rightarrow> Returned (c\<lparr>currentPoints := pts, previewPath := d\<rparr>))))"

definition onPointerUp :: "DrawingComponent \<Rightarrow> DrawingComponent" where
  "onPointerUp c =
     (let c' =
        (if length (currentPoints c) > 0 \<and> activeTool c \<noteq> Eraser then
           (case toolAt (tools c) (activeTool c) of
              None \<Rightarrow> c
            | Some t \<Rightarrow>
                c\<lparr>allStrokes := allStrokes c @
                    [\<lparr>points = currentPoints c, path = previewPath c,
                      color = color_t t, opacity = Num (opacity_t t),
                      outlineColor = color_ol (outline t),
                      outlineWidth = Num (width_ol (outline t))\<rparr>]\<rparr>)
         else c)
      in c'\<lparr>currentPoints := [], previewPath := ''''\<rparr>)"

subsection \<open>Erasing as the specification describes it\<close>

text \<open>
  A sample is an array \<open>[x, y, pressure]\<close>; its position is its first two entries. The
  distance between two positions is the Euclidean one.
\<close>

fun sample_xy :: "real list \<Rightarrow> (real \<times> real) option" where
  "sample_xy (a # b # _) = Some (a, b)"
| "sample_xy _ = None"

definition euclid :: "real \<times> real \<Rightarrow> real \<times> real \<Rightarrow> real" where
  "euclid a b = sqrt ((fst a - fst b)\<^sup>2 + (snd a - snd b)\<^sup>2)"

section \<open>Path codec: decode\<close>

subsection \<open>Regular expressions\<close>

text \<open>
  \<open>extractPointsFromPath\<close> matches the literal \<^verbatim>\<open>/[-+]?[0-9]*\.?[0-9]+/g\<close>. The
  operators it uses, as a datatype, and the backtracking matcher of the language:
  \<open>ends r s\<close> lists, in the order in which the matcher tries them, the remainders of
  \<open>s\<close> after every way of matching \<open>r\<close> at its start. The quantifiers are greedy: an
  optional part and a further iteration are tried before their absence. An iteration of
  \<open>*\<close> that consumes nothing is rejected, as the language does.
\<close>

datatype regex = Class "char list" | Seq regex regex | Opt regex | Star regex | Plus regex

fun weight :: "regex \<Rightarrow> nat" where
  "weight (Class cs) = 1"
| "weight (Seq a b) = Suc (weight a + weight b)"
| "weight (Opt a) = Suc (weight a)"
| "weight (Star a) = Suc (weight a)"
| "weight (Plus a) = Suc (Suc (weight a))"

function ends :: "regex \<Rightarrow> string \<Rightarrow> string list" where
  "ends (Class cs) s = (case s of [] \<Rightarrow> [] | c # t \<Rightarrow> if c \<in> set cs then [t] else [])"
| "ends (Seq a b) s = concat (map (ends b) (ends a s))"
| "ends (Opt a) s = ends a s @ [s]"
| "ends (Star a) s =
     concat (map (ends (Star a)) (filter (\<lambda>t. length t < length s) (ends a s))) @ [s]"
| "ends (Plus a) s = concat (map (ends (Star a)) (ends a s))"
  by pat_completeness auto
termination
  by (relation "measures [\<lambda>(r, s). weight r, \<lambda>(r, s). length s]") auto

definition number_regex :: regex where
  "number_regex =
     Seq (Opt (Class ''-+''))
       (Seq (Star (Class ''0123456789''))
         (Seq (Opt (Class ''.'')) (Plus (Class ''0123456789''))))"

text \<open>The first match at the start of \<open>s\<close>, as the remainder after it.\<close>

definition exec :: "regex \<Rightarrow> string \<Rightarrow> string option" where
  "exec r s = (case ends r s of [] \<Rightarrow> None | e # _ \<Rightarrow> Some e)"

text \<open>
  The matches of a global regular expression, from left to right: where no match starts,
  the scan moves on by one character; after a match it goes on behind the match (behind
  the next character after an empty match). \<open>String.prototype.match\<close> returns the list
  of the matched texts, or \<open>null\<close> when there is none.
\<close>

function match_all :: "regex \<Rightarrow> string \<Rightarrow> string list" where
  "match_all r s =
     (case exec r s of
        None \<Rightarrow> (case s of [] \<Rightarrow> [] | _ # t \<Rightarrow> match_all r t)
      | Some e \<Rightarrow>
          if length e < length s then take (length s - length e) s # match_all r e
          else [] # (case s of [] \<Rightarrow> [] | _ # t \<Rightarrow> match_all r t))"
  by pat_completeness auto
termination
  by (relation "measure (\<lambda>(r, s). length s)") auto

definition js_match :: "regex \<Rightarrow> string \<Rightarrow> string list option" where
  "js_match r d = (case match_all r d of [] \<Rightarrow> None | m # ms \<Rightarrow> Some (m # ms))"

subsection \<open>parseFloat\<close>

text \<open>
  The language's \<open>parseFloat\<close>: leading white space is skipped, then the longest prefix
  that is a decimal literal is read: a sign, digits, a fraction, an exponent. The result
  is \<open>NaN\<close> when there is no digit before the exponent. The value is the real number
  the literal denotes. Strings are byte strings here, so only the white space of ASCII is
  skipped; the literal \<open>Infinity\<close>, which has no real value, is not read.
\<close>

definition is_digit :: "char \<Rightarrow> bool" where
  "is_digit c = (c \<in> set ''0123456789'')"

definition is_space :: "char \<Rightarrow> bool" where
  "is_space c = (c \<in> set [CHR 0x09, CHR 0x0A, CHR 0x0B, CHR 0x0C, CHR 0x0D, CHR 0x20])"

definition digit_val :: "char \<Rightarrow> nat" where
  "digit_val c = of_char c - 48"

definition digits_val :: "string \<Rightarrow> nat" where
  "digits_val ds = foldl (\<lambda>n c. 10 * n + digit_val c) 0 ds"

definition strip_sign :: "string \<Rightarrow> bool \<times> string" where
  "strip_sign s =
     (case s of
        [] \<Rightarrow> (False, [])
      | c # t \<Rightarrow> if c = CHR ''-'' then (True, t) else if c = CHR ''+'' then (False, t) else (False, s))"

definition exponent :: "string \<Rightarrow> int" where
  "exponent s =
     (case s of
        [] \<Rightarrow> 0
      | c # t \<Rightarrow>
          if c = CHR ''e'' \<or> c = CHR ''E'' then
            (case strip_sign t of
               (neg, u) \<Rightarrow>
                 (let n = int (digits_val (takeWhile is_digit u))
                  in if neg then - n else n))
          else 0)"

definition parseFloat :: "string \<Rightarrow> jsval" where
  "parseFloat s =
     (case strip_sign (dropWhile is_space s) of
        (neg, u) \<Rightarrow>
          (let ip = takeWhile is_digit u;
               r1 = dropWhile is_digit u;
               fp = (case r1 of [] \<Rightarrow> [] | c # t \<Rightarrow> if c = CHR ''.'' then takeWhile is_digit t else []);
               r2 = (case r1 of [] \<Rightarrow> [] | c # t \<Rightarrow> if c = CHR ''.'' then dropWhile is_digit t else r1);
               v = (real (digits_val ip) + real (digits_val fp) / 10 ^ length fp)
                     * 10 powi exponent r2
           in if ip = [] \<and> fp = [] then NaN else Num (if neg then - v else v)))"

subsection \<open>extractPointsFromPath\<close>

text \<open>
  \<^verbatim>\<open>
  extractPointsFromPath(d: string): number[][] {
    const points: number[][] = [];
    const regex = /[-+]?[0-9]*\.?[0-9]+/g;
    const numbers = d.match(regex);
    if (numbers) {
      for (let i = 0; i < numbers.length - 1; i += 2) {
        const x = parseFloat(numbers[i]);
        const y = parseFloat(numbers[i + 1]);
        if (!isNaN(x) && !isNaN(y)) {
          points.push([x, y, 0.5]); // Default pressure
        }
      }
    }
    return points;
  }
  \<close>
  \<open>extract_loop numbers i pts\<close> is the \<open>for\<close> loop from index \<open>i\<close> on, with \<open>pts\<close>
  the array \<open>points\<close> so far. A point is pushed when both values are numbers.
\<close>

function extract_loop :: "string list \<Rightarrow> nat \<Rightarrow> real list list \<Rightarrow> real list list" where
  "extract_loop numbers i pts =
     (if int i < int (length numbers) - 1 then
        (let x = parseFloat (numbers ! i); y = parseFloat (numbers ! (i + 1))
         in extract_loop numbers (i + 2)
              (case (x, y) of
                 (Num a, Num b) \<Rightarrow> pts @ [[a, b, 0.5]]
               | _ \<Rightarrow> pts))
      else pts)"
  by pat_completeness auto
termination
  by (relation "measure (\<lambda>(numbers, i, pts). length numbers - i)") auto

definition extractPointsFromPath :: "string \<Rightarrow> real list list" where
  "extractPointsFromPath d =
     (case js_match number_regex d of
        None \<Rightarrow> []
      | Some numbers \<Rightarrow> extract_loop numbers 0 [])"

subsection \<open>Decoding as the specification describes it\<close>







section \<open>Import\<close>

text \<open>
  \<^verbatim>\<open>
  parseSVGContent(svgContent: string): DrawingStroke[] {
    const parser = new DOMParser();
    const doc = parser.parseFromString(svgContent, 'image/svg+xml');
    const svgElement = doc.querySelector('svg');
    if (!svgElement) { console.error('Invalid SVG file'); return []; }
    const strokes: DrawingStroke[] = [];
    const paths = svgElement.querySelectorAll('path');
    paths.forEach((path) => {
      const d = path.getAttribute('d');
      if (d) {
        const fill = path.getAttribute('fill') || '#000000';
        const fillOpacity = parseFloat(path.getAttribute('fill-opacity') || '1');
        const stroke = path.getAttribute('stroke') || 'none';
        const strokeWidth = parseFloat(path.getAttribute('stroke-width') || '0');
        const points = this.extractPointsFromPath(d);
        strokes.push({ points: points, path: d,
          color: fill === 'none' ? '#000000' : fill, opacity: fillOpacity,
          outlineColor: stroke === 'none' ? '#000000' : stroke, outlineWidth: strokeWidth });
      }
    });
    return strokes;
  }
  private loadSVGContent(svgContent: string) {
    const strokes = this.drawingService.parseSVGContent(svgContent);
    this.allStrokes = strokes;
    this.redoStack = [];
  }
  \<close>
  The browser's parser and selectors are not part of the repository. What they give for
  a text is the parameter \<open>svgPaths\<close>: \<open>None\<close> when the parsed document has no \<open>svg\<close>
  element, and otherwise the \<open>path\<close> elements below the first one, in document order,
  each as the list of its attributes.
\<close>

type_synonym PathElement = "(string \<times> string) list"

definition getAttribute :: "PathElement \<Rightarrow> string \<Rightarrow> string option" where
  "getAttribute el name = map_of el name"

text \<open>\<open>a || b\<close> for a string or \<open>null\<close> \<open>a\<close>: \<open>null\<close> and the empty string are falsy.\<close>

definition or_else :: "string option \<Rightarrow> string \<Rightarrow> string" where
  "or_else a b = (case a of None \<Rightarrow> b | Some s \<Rightarrow> if s = [] then b else s)"

text \<open>What the callback of \<open>forEach\<close> pushes for one \<open>path\<close> element.\<close>

definition strokeOfPath :: "PathElement \<Rightarrow> DrawingStroke list" where
  "strokeOfPath el =
     (case getAttribute el ''d'' of
        None \<Rightarrow> []
      | Some d \<Rightarrow>
          if d = [] then []
          else
            (let fill = or_else (getAttribute el ''fill'') ''#000000'';
                 fillOpacity = parseFloat (or_else (getAttribute el ''fill-opacity'') ''1'');
                 stroke = or_else (getAttribute el ''stroke'') ''none'';
                 strokeWidth = parseFloat (or_else (getAttribute el ''stroke-width'') ''0'');
                 pts = extractPointsFromPath d
             in [\<lparr>points = pts, path = d,
                   color = (if fill = ''none'' then ''#000000'' else fill),
                   opacity = fillOpacity,
                   outlineColor = (if stroke = ''none'' then ''#000000'' else stroke),
                   outlineWidth = strokeWidth\<rparr>]))"

definition parseSVGContent ::
  "(string \<Rightarrow> PathElement list option) \<Rightarrow> string \<Rightarrow> DrawingStroke list" where
  "parseSVGContent svgPaths svgContent =
     (case svgPaths svgContent of
        None \<Rightarrow> []
      | Some paths \<Rightarrow> foldl (\<lambda>strokes el. strokes @ strokeOfPath el) [] paths)"

definition loadSVGContent ::
  "(string \<Rightarrow> PathElement list option) \<Rightarrow> DrawingComponent \<Rightarrow> string \<Rightarrow> DrawingComponent" where
  "loadSVGContent svgPaths c svgContent =
     c\<lparr>allStrokes := parseSVGContent svgPaths svgContent, redoStack := []\<rparr>"

section \<open>Theorems\<close>

subsection \<open>Encode\<close>

lemma foldl_append_concat:
  "foldl (\<lambda>acc (p, i). acc @ f p i) init xs = init @ concat (map (\<lambda>(p, i). f p i) xs)"
  by (induction xs arbitrary: init) auto

lemma zip_upt_nth:
  "zip xs [0..<length xs] = map (\<lambda>i. (xs ! i, i)) [0..<length xs]"
  by (rule nth_equalityI) simp_all

lemma reduce_stroke_concat:
  "reduce_stroke arr init
     = init @ concat (map (\<lambda>i. pushed arr (arr ! i) i) [0..<length arr])"
proof -
  have "reduce_stroke arr init
          = init @ concat (map (\<lambda>(p, i). pushed arr p i) (zip arr [0..<length arr]))"
    unfolding reduce_stroke_def by (rule foldl_append_concat)
  also have "map (\<lambda>(p, i). pushed arr p i) (zip arr [0..<length arr])
          = map (\<lambda>i. pushed arr (arr ! i) i) [0..<length arr]"
    by (subst zip_upt_nth) (simp add: comp_def)
  finally show ?thesis .
qed

lemma pushed_ring:
  assumes "i < length ring"
  shows "pushed (map xy ring) (map xy ring ! i) i = quad_segment ring i"
proof -
  from assms have "Suc i mod length ring < length ring"
    by (intro mod_less_divisor) (cases ring, simp_all)
  with assms show ?thesis
    by (simp add: pushed_def quad_segment_def midpoint2_def xy_def nth_js_def Let_def)
qed

lemma path_data_ring:
  assumes "ring \<noteq> []"
  shows "path_data (map xy ring) = ring_path ring"
proof -
  obtain a rest where ring: "ring = a # rest"
    using assms by (cases ring) auto
  have segs: "map (\<lambda>i. pushed (map xy ring) (map xy ring ! i) i) [0..<length ring]
                = map (quad_segment ring) [0..<length ring]"
    using pushed_ring [of _ ring] by (intro map_cong refl) (simp del: nth_map)
  have "path_data (map xy ring)
          = reduce_stroke (map xy ring) ([Str ''M''] @ map Num (xy a) @ [Str ''Q''])
              @ [Str ''Z'']"
    by (simp add: path_data_def ring)
  also have "\<dots> = ([Str ''M''] @ map Num (xy a) @ [Str ''Q''])
              @ concat (map (\<lambda>i. pushed (map xy ring) (map xy ring ! i) i)
                  [0..<length ring]) @ [Str ''Z'']"
    by (simp only: reduce_stroke_concat length_map append_assoc)
  also have "\<dots> = ring_path ring"
    by (simp only: segs) (simp add: ring_path_def ring xy_def)
  finally show ?thesis .
qed

lemma join_single_point:
  "join '' '' (map (toStr fmt) (ring_path [(x, y)]))
     = ''M '' @ fmt x @ '' '' @ fmt y @ '' Q '' @ fmt x @ '' '' @ fmt y
         @ '' '' @ fmt x @ '' '' @ fmt y @ '' Z''"
  by (simp add: ring_path_def quad_segment_def midpoint2_def)

text \<open>
  C1. \<open>getSvgPathFromStroke\<close> returns the empty string for the empty list. For a
  non-empty ring of 2-D points it returns the tokens of \<open>ring_path\<close> joined by single
  spaces: \<open>M\<close>, the first point, \<open>Q\<close>, then for every ring point in order its own
  coordinates (the control point) followed by the midpoint between it and its cyclic
  successor, and a final \<open>Z\<close>. A single-point ring gives \<open>M x y Q x y x y Z\<close>.
\<close>

theorem getSvgPathFromStroke_encodes_ring:
  "getSvgPathFromStroke fmt [] = '''' \<and>
   (ring \<noteq> [] \<longrightarrow>
      getSvgPathFromStroke fmt (map xy ring) = join '' '' (map (toStr fmt) (ring_path ring))) \<and>
   getSvgPathFromStroke fmt [[x, y]]
     = ''M '' @ fmt x @ '' '' @ fmt y @ '' Q '' @ fmt x @ '' '' @ fmt y
         @ '' '' @ fmt x @ '' '' @ fmt y @ '' Z''"
proof (intro conjI impI)
  show "getSvgPathFromStroke fmt [] = ''''"
    by (simp add: getSvgPathFromStroke_def)
  show r: "getSvgPathFromStroke fmt (map xy ring) = join '' '' (map (toStr fmt) (ring_path ring))"
    if "ring \<noteq> []" for ring
    using that by (simp add: getSvgPathFromStroke_def path_data_ring)
  have "getSvgPathFromStroke fmt (map xy [(x, y)])
          = join '' '' (map (toStr fmt) (ring_path [(x, y)]))"
    by (rule r) simp
  then show "getSvgPathFromStroke fmt [[x, y]]
     = ''M '' @ fmt x @ '' '' @ fmt y @ '' Q '' @ fmt x @ '' '' @ fmt y
         @ '' '' @ fmt x @ '' '' @ fmt y @ '' Z''"
    by (simp only: join_single_point) (simp add: xy_def)
qed

theorem getSvgPathFromStroke_encodes_ring_witness:
  "[(0, 0), (2, 0), (2, 2)] \<noteq> ([] :: (real \<times> real) list) \<and>
   (\<forall>fmt. getSvgPathFromStroke fmt [[0, 0], [2, 0], [2, 2]]
      = ''M '' @ fmt 0 @ '' '' @ fmt 0 @ '' Q ''
          @ fmt 0 @ '' '' @ fmt 0 @ '' '' @ fmt 1 @ '' '' @ fmt 0 @ '' ''
          @ fmt 2 @ '' '' @ fmt 0 @ '' '' @ fmt 2 @ '' '' @ fmt 1 @ '' ''
          @ fmt 2 @ '' '' @ fmt 2 @ '' '' @ fmt 1 @ '' '' @ fmt 1 @ '' Z'')"
proof (intro conjI allI)
  fix fmt :: "real \<Rightarrow> string"
  show "getSvgPathFromStroke fmt [[0, 0], [2, 0], [2, 2]]
      = ''M '' @ fmt 0 @ '' '' @ fmt 0 @ '' Q ''
          @ fmt 0 @ '' '' @ fmt 0 @ '' '' @ fmt 1 @ '' '' @ fmt 0 @ '' ''
          @ fmt 2 @ '' '' @ fmt 0 @ '' '' @ fmt 2 @ '' '' @ fmt 1 @ '' ''
          @ fmt 2 @ '' '' @ fmt 2 @ '' '' @ fmt 1 @ '' '' @ fmt 1 @ '' Z''"
    using getSvgPathFromStroke_encodes_ring
            [where fmt = fmt and ring = "[(0, 0), (2, 0), (2, 2)]" and x = 0 and y = 0]
    by (simp add: xy_def ring_path_def quad_segment_def midpoint2_def)
qed simp

subsection \<open>Undo and redo\<close>

lemma undo_empty: "allStrokes c = [] \<Longrightarrow> undo c = c"
  by (simp add: undo_def)

lemma redo_empty: "redoStack c = [] \<Longrightarrow> redo c = c"
  by (simp add: redo_def)

lemma undo_snoc:
  "allStrokes c = ss @ [s] \<Longrightarrow> undo c = c\<lparr>allStrokes := ss, redoStack := redoStack c @ [s]\<rparr>"
  by (simp add: undo_def)

lemma redo_snoc:
  "redoStack c = rs @ [s] \<Longrightarrow> redo c = c\<lparr>redoStack := rs, allStrokes := allStrokes c @ [s]\<rparr>"
  by (simp add: redo_def)

lemma redo_undo:
  assumes "allStrokes c \<noteq> []"
  shows "redo (undo c) = c"
proof -
  from assms obtain ss s where ss: "allStrokes c = ss @ [s]"
    by (metis rev_exhaust)
  have "redo (undo c) = redo (c\<lparr>allStrokes := ss, redoStack := redoStack c @ [s]\<rparr>)"
    by (simp only: undo_snoc [OF ss])
  also have "\<dots> = c\<lparr>allStrokes := ss, redoStack := redoStack c @ [s]\<rparr>
                      \<lparr>redoStack := redoStack c, allStrokes := ss @ [s]\<rparr>"
    by (subst redo_snoc [where rs = "redoStack c" and s = s]) simp_all
  also have "\<dots> = c"
    by (simp add: ss [symmetric])
  finally show ?thesis .
qed

text \<open>
  C3. \<open>undo\<close> moves the most recently committed stroke to the top of the redo stack and
  changes nothing when the committed stack is empty; \<open>redo\<close> moves the top of the redo
  stack back onto the committed stack and changes nothing when the redo stack is empty.
  From committed \<open>[A, B]\<close> with an empty redo stack, \<open>undo\<close> gives committed \<open>[A]\<close>
  and redo \<open>[B]\<close>, and \<open>redo\<close> then gives committed \<open>[A, B]\<close> and redo \<open>[]\<close>.
  For every state with a non-empty committed stack, \<open>redo\<close> after \<open>undo\<close> gives the
  state back.
\<close>

theorem undo_redo_stacks:
  "(allStrokes c = [] \<longrightarrow> undo c = c) \<and>
   (redoStack c = [] \<longrightarrow> redo c = c) \<and>
   (\<forall>ss s. allStrokes c = ss @ [s] \<longrightarrow>
      undo c = c\<lparr>allStrokes := ss, redoStack := redoStack c @ [s]\<rparr>) \<and>
   (\<forall>rs s. redoStack c = rs @ [s] \<longrightarrow>
      redo c = c\<lparr>redoStack := rs, allStrokes := allStrokes c @ [s]\<rparr>) \<and>
   (allStrokes c = [A, B] \<and> redoStack c = [] \<longrightarrow>
      allStrokes (undo c) = [A] \<and> redoStack (undo c) = [B] \<and>
      allStrokes (redo (undo c)) = [A, B] \<and> redoStack (redo (undo c)) = []) \<and>
   (allStrokes c \<noteq> [] \<longrightarrow> redo (undo c) = c)"
proof (intro conjI allI impI)
  assume ab: "allStrokes c = [A, B] \<and> redoStack c = []"
  then have u: "undo c = c\<lparr>allStrokes := [A], redoStack := [B]\<rparr>"
    using undo_snoc [of c "[A]" B] by simp
  show "allStrokes (undo c) = [A]" "redoStack (undo c) = [B]"
    by (simp_all add: u)
  from ab have "redo (undo c) = c" by (simp add: redo_undo)
  with ab show "allStrokes (redo (undo c)) = [A, B]" "redoStack (redo (undo c)) = []"
    by simp_all
qed (simp_all add: undo_empty redo_empty undo_snoc redo_snoc redo_undo)

theorem undo_redo_stacks_witness:
  "(let A = \<lparr>points = [[0, 0, 0.5]], path = ''M 0 0 Z'', color = ''#eb454a'', opacity = Num 1,
             outlineColor = ''#9747ff'', outlineWidth = Num 0\<rparr>;
        B = A\<lparr>points := [[5, 5, 0.5]], path := ''M 5 5 Z''\<rparr>;
        c = initialComponent\<lparr>allStrokes := [A, B]\<rparr>
    in allStrokes c = [A, B] \<and> redoStack c = [] \<and> allStrokes c \<noteq> [] \<and>
       allStrokes (undo c) = [A] \<and> redoStack (undo c) = [B] \<and>
       allStrokes (redo (undo c)) = [A, B] \<and> redoStack (redo (undo c)) = [] \<and>
       redo (undo c) = c \<and>
       allStrokes initialComponent = [] \<and> undo initialComponent = initialComponent \<and>
       redoStack initialComponent = [] \<and> redo initialComponent = initialComponent)"
proof -
  define A where "A = \<lparr>points = [[0, 0, 0.5 :: real]], path = ''M 0 0 Z'', color = ''#eb454a'',
    opacity = Num 1, outlineColor = ''#9747ff'', outlineWidth = Num 0\<rparr>"
  define B where "B = A\<lparr>points := [[5, 5, 0.5]], path := ''M 5 5 Z''\<rparr>"
  define c where "c = initialComponent\<lparr>allStrokes := [A, B]\<rparr>"
  have h: "allStrokes c = [A, B] \<and> redoStack c = []" "allStrokes c \<noteq> []"
    by (simp_all add: c_def initialComponent_def)
  have i: "allStrokes initialComponent = []" "redoStack initialComponent = []"
    by (simp_all add: initialComponent_def)
  from h i undo_redo_stacks [of c A B] undo_redo_stacks [of initialComponent]
  have "allStrokes c = [A, B] \<and> redoStack c = [] \<and> allStrokes c \<noteq> [] \<and>
       allStrokes (undo c) = [A] \<and> redoStack (undo c) = [B] \<and>
       allStrokes (redo (undo c)) = [A, B] \<and> redoStack (redo (undo c)) = [] \<and>
       redo (undo c) = c \<and>
       allStrokes initialComponent = [] \<and> undo initialComponent = initialComponent \<and>
       redoStack initialComponent = [] \<and> redo initialComponent = initialComponent"
    by blast
  then show ?thesis
    unfolding A_def B_def c_def Let_def .
qed

subsection \<open>Erasing\<close>

lemma euclid_is_dist: "euclid (a, b) (x, y) = dist (Complex a b) (Complex x y)"
  by (simp add: euclid_def dist_complex_def cmod_def)

lemma le_euclid_iff:
  assumes "0 \<le> r"
  shows "r \<le> euclid a b \<longleftrightarrow> r\<^sup>2 \<le> (fst a - fst b)\<^sup>2 + (snd a - snd b)\<^sup>2"
proof -
  have "r \<le> euclid a b \<longleftrightarrow> sqrt (r\<^sup>2) \<le> euclid a b"
    using assms by simp
  also have "\<dots> \<longleftrightarrow> r\<^sup>2 \<le> (fst a - fst b)\<^sup>2 + (snd a - snd b)\<^sup>2"
    unfolding euclid_def by (rule real_sqrt_le_iff)
  finally show ?thesis .
qed

lemma hypot_lt_euclid:
  "js_lt (hypot (js_sub (nth_js p 0) (Num x)) (js_sub (nth_js p 1) (Num y))) (Num r)
     \<longleftrightarrow> (\<exists>q. sample_xy p = Some q \<and> euclid q (x, y) < r)"
proof (cases p)
  case Nil
  then show ?thesis by (simp add: nth_js_def)
next
  case (Cons a rest)
  then show ?thesis
    by (cases rest) (simp_all add: nth_js_def euclid_def)
qed

lemma shouldEraseStroke_iff:
  "shouldEraseStroke s x y r
     \<longleftrightarrow> (\<exists>p\<in>set (points s). \<exists>q. sample_xy p = Some q \<and> euclid q (x, y) < r)"
  unfolding shouldEraseStroke_def list_ex_iff by (simp only: hypot_lt_euclid)

text \<open>
  C5. \<open>erase\<close> replaces the committed list, in one filter pass that keeps the order and
  touches nothing else, by the strokes all of whose samples lie at Euclidean distance at
  least the eraser size from the pointer position; a stroke with at least one sample
  strictly nearer is removed as a whole.
\<close>

theorem erase_removes_strokes_within_radius:
  "erase rect c e =
     c\<lparr>allStrokes :=
         filter (\<lambda>s. \<forall>p\<in>set (points s). \<forall>q. sample_xy p = Some q \<longrightarrow>
                        size_e (eraser (tools c)) \<le> euclid q (getCoords rect e))
           (allStrokes c)\<rparr>"
proof -
  obtain x y where xy: "getCoords rect e = (x, y)"
    by (cases "getCoords rect e")
  have "(\<lambda>s. \<not> shouldEraseStroke s x y (size_e (eraser (tools c))))
          = (\<lambda>s. \<forall>p\<in>set (points s). \<forall>q. sample_xy p = Some q \<longrightarrow>
                        size_e (eraser (tools c)) \<le> euclid q (x, y))"
    by (auto simp: shouldEraseStroke_iff fun_eq_iff not_less)
  then show ?thesis
    by (simp add: erase_def xy)
qed

theorem erase_removes_strokes_within_radius_witness:
  "(let near = \<lparr>points = [[200, 200, 0.5], [3, 4, 0.5]], path = ''M 3 4 Z'', color = ''#eb454a'',
                opacity = Num 1, outlineColor = ''#9747ff'', outlineWidth = Num 0\<rparr>;
        far = near\<lparr>points := [[40, 0, 0.5], [0, 100, 0.5]]\<rparr>;
        c = initialComponent\<lparr>allStrokes := [near, far]\<rparr>
    in erase \<lparr>rect_left = 0, rect_top = 0\<rparr> c
         \<lparr>clientX = 0, clientY = 0, pressure = 0.5, buttons = 1\<rparr>
       = c\<lparr>allStrokes := [far]\<rparr>)"
  unfolding Let_def
  by (subst erase_removes_strokes_within_radius)
     (simp add: initialComponent_def defaultTools_def getCoords_def le_euclid_iff)

text \<open>
  C10. With the eraser active, pointer-down and pointer-move are \<open>erase\<close>, and
  \<open>erase\<close> leaves the redo stack as it is; a pointer-down with a drawing tool
  empties it.
\<close>

theorem eraser_keeps_redoStack:
  "(activeTool c = Eraser \<longrightarrow>
      onPointerDown rect c e = erase rect c e \<and>
      onPointerMove fmt getStroke rect c e
        = Returned (if buttons e \<noteq> 1 then c else erase rect c e)) \<and>
   redoStack (erase rect c e) = redoStack c \<and>
   set (allStrokes (erase rect c e)) \<subseteq> set (allStrokes c) \<and>
   (activeTool c \<noteq> Eraser \<longrightarrow> redoStack (onPointerDown rect c e) = [])"
  by (auto simp: onPointerDown_def onPointerMove_def erase_def split: prod.splits)

theorem eraser_keeps_redoStack_witness:
  "(let B = \<lparr>points = [[3, 4, 0.5]], path = ''M 3 4 Z'', color = ''#eb454a'',
             opacity = Num 1, outlineColor = ''#9747ff'', outlineWidth = Num 0\<rparr>;
        c = initialComponent\<lparr>redoStack := [B], activeTool := Eraser\<rparr>;
        p = initialComponent\<lparr>redoStack := [B]\<rparr>;
        r = \<lparr>rect_left = 0, rect_top = 0\<rparr>;
        e = \<lparr>clientX = 0, clientY = 0, pressure = 0.5, buttons = 1\<rparr>
    in activeTool c = Eraser \<and> redoStack (onPointerDown r c e) = [B] \<and>
       (\<forall>fmt getStroke. \<exists>c'. onPointerMove fmt getStroke r c e = Returned c' \<and> redoStack c' = [B]) \<and>
       activeTool p \<noteq> Eraser \<and> redoStack (onPointerDown r p e) = [])"
proof -
  define B where "B = \<lparr>points = [[3, 4, 0.5 :: real]], path = ''M 3 4 Z'', color = ''#eb454a'',
             opacity = Num 1, outlineColor = ''#9747ff'', outlineWidth = Num 0\<rparr>"
  define c where "c = initialComponent\<lparr>redoStack := [B], activeTool := Eraser\<rparr>"
  define p where "p = initialComponent\<lparr>redoStack := [B]\<rparr>"
  define r where "r = \<lparr>rect_left = 0 :: real, rect_top = 0 :: real\<rparr>"
  define e where "e = \<lparr>clientX = 0 :: real, clientY = 0 :: real, pressure = 0.5 :: real,
    buttons = 1 :: nat\<rparr>"
  have h: "activeTool c = Eraser" "redoStack c = [B]" "activeTool p \<noteq> Eraser"
    by (simp_all add: c_def p_def initialComponent_def)
  have "redoStack (onPointerDown r c e) = [B]"
    using eraser_keeps_redoStack [of c r e] h by simp
  moreover have "\<exists>c'. onPointerMove fmt getStroke r c e = Returned c' \<and> redoStack c' = [B]"
    for fmt getStroke
    using eraser_keeps_redoStack [of c r e fmt getStroke] h by simp
  moreover have "redoStack (onPointerDown r p e) = []"
    using eraser_keeps_redoStack [of p r e] h by simp
  ultimately have "activeTool c = Eraser \<and> redoStack (onPointerDown r c e) = [B] \<and>
       (\<forall>fmt getStroke. \<exists>c'. onPointerMove fmt getStroke r c e = Returned c' \<and> redoStack c' = [B]) \<and>
       activeTool p \<noteq> Eraser \<and> redoStack (onPointerDown r p e) = []"
    using h by blast
  then show ?thesis
    unfolding B_def c_def p_def r_def e_def Let_def .
qed

subsection \<open>Easing catalog\<close>

lemma length_EASINGS: "length EASINGS = 19"
  by (simp add: EASINGS_def)

lemma easingKeys_eq:
  "easingKeys =
     [''linear'',
      ''easeInQuad'', ''easeOutQuad'', ''easeInOutQuad'',
      ''easeInCubic'', ''easeOutCubic'', ''easeInOutCubic'',
      ''easeInQuart'', ''easeOutQuart'', ''easeInOutQuart'',
      ''easeInQuint'', ''easeOutQuint'', ''easeInOutQuint'',
      ''easeInSine'', ''easeOutSine'', ''easeInOutSine'',
      ''easeInExpo'', ''easeOutExpo'', ''easeInOutExpo'']"
  by (simp add: easingKeys_def EASINGS_def)

lemma distinct_easingKeys: "distinct easingKeys"
  unfolding easingKeys_eq by simp

lemma map_of_EASINGS_keys:
  "map_of EASINGS name = None \<longleftrightarrow> name \<notin> set easingKeys"
  by (simp add: easingKeys_def map_of_eq_None_iff)

lemma map_of_EASINGS_endpoints:
  "map_of EASINGS ''linear'' = Some linear"
  "map_of EASINGS ''easeInExpo'' = Some easeInExpo"
  "map_of EASINGS ''easeOutExpo'' = Some easeOutExpo"
  "map_of EASINGS ''easeInOutExpo'' = Some easeInOutExpo"
  by (simp_all add: EASINGS_def)

text \<open>
  C6, as the claim states it, fails: the catalog does not have 21 entries.
\<close>

theorem catalog_21_entries_counterexample: "length EASINGS \<noteq> 21"
  by (simp add: length_EASINGS)

text \<open>
  C6, amended. The catalog has 19 entries with distinct names: \<open>linear\<close>, which is the
  identity, and then the families Quad, Cubic, Quart, Quint, Sine and Expo, each as
  \<open>easeIn\<close>, \<open>easeOut\<close> and \<open>easeInOut\<close>, in this order.
\<close>

theorem catalog_19_entries:
  "length EASINGS = 19 \<and> distinct easingKeys \<and>
   easingKeys =
     ''linear'' #
     concat (map (\<lambda>family. map (\<lambda>variant. variant @ family) [''easeIn'', ''easeOut'', ''easeInOut''])
               [''Quad'', ''Cubic'', ''Quart'', ''Quint'', ''Sine'', ''Expo'']) \<and>
   easingAt ''linear'' = Easing (\<lambda>t. t)"
proof (intro conjI)
  have "linear = (\<lambda>t. t)"
    by (simp add: fun_eq_iff linear_def)
  then show "easingAt ''linear'' = Easing (\<lambda>t. t)"
    by (simp add: easingAt_def map_of_EASINGS_endpoints)
qed (simp_all add: length_EASINGS distinct_easingKeys easingKeys_eq)

text \<open>
  C9. \<open>linear\<close> and the three Expo entries of the catalog give 0 at 0 and 1 at 1.
\<close>

theorem easing_endpoints:
  "(\<exists>f. easingAt ''linear'' = Easing f \<and> f 0 = 0 \<and> f 1 = 1) \<and>
   (\<exists>f. easingAt ''easeInExpo'' = Easing f \<and> f 0 = 0 \<and> f 1 = 1) \<and>
   (\<exists>f. easingAt ''easeOutExpo'' = Easing f \<and> f 0 = 0 \<and> f 1 = 1) \<and>
   (\<exists>f. easingAt ''easeInOutExpo'' = Easing f \<and> f 0 = 0 \<and> f 1 = 1)"
  by (simp add: easingAt_def map_of_EASINGS_endpoints linear_def easeInExpo_def easeOutExpo_def
        easeInOutExpo_def)

subsection \<open>Unknown easing names\<close>

lemma easingAt_unknown:
  "name \<notin> set easingKeys \<Longrightarrow> name \<notin> set objectPrototypeKeys \<Longrightarrow> easingAt name = NoEasing"
  by (simp add: easingAt_def map_of_EASINGS_keys [symmetric])

lemma easingAt_known:
  "name \<in> set easingKeys \<Longrightarrow> \<exists>f. (name, f) \<in> set EASINGS \<and> easingAt name = Easing f"
  by (cases "map_of EASINGS name")
     (auto simp: easingAt_def map_of_EASINGS_keys dest: map_of_SomeD)

text \<open>
  C7, as the claim states it, fails: for a pen whose easing name \<open>bogus\<close> is not in the
  catalog, \<open>getLibOptions\<close> returns, with an undefined easing, and raises nothing.
\<close>

theorem unknown_easing_raises_counterexample:
  "''bogus'' \<notin> set easingKeys \<and>
   getLibOptions (getDefaultTool ''#eb454a'' 16 1 \<lparr>easing := ''bogus''\<rparr>) =
     Returned
       \<lparr>size_l = 16, thinning_l = 0.5, streamline_l = 0.5, smoothing_l = 0.23,
        easing_l = NoEasing,
        start_l = \<lparr>taper_o = 0, easing_o = Easing linear, cap = True\<rparr>,
        end_l = \<lparr>taper_o = 0, easing_o = Easing linear, cap = True\<rparr>\<rparr>"
  by (simp add: getLibOptions_def getDefaultTool_def easingAt_def easingKeys_def EASINGS_def
        objectPrototypeKeys_def)

text \<open>
  C7, amended. No easing name is validated at configuration time: \<open>getLibOptions\<close>
  returns for every tool configuration and raises nothing, each of the three easing
  options being the plain table read of its name. The read gives the catalog's function
  for a name of the catalog, the inherited member for a name of \<open>Object.prototype\<close>
  and \<open>undefined\<close> for every other name. \<open>generatePreviewPath\<close> hands these options
  unchecked to the outline builder and returns, or raises, as the outline builder does.
\<close>

theorem getLibOptions_never_raises:
  "(\<exists>opts. getLibOptions tool = Returned opts \<and>
      easing_l opts = easingAt (easing tool) \<and>
      easing_o (start_l opts) = easingAt (easing_tp (start_t tool)) \<and>
      easing_o (end_l opts) = easingAt (easing_tp (end_t tool)) \<and>
      generatePreviewPath fmt getStroke pts tool
        = (case getStroke pts opts of
             Returned strokePoints \<Rightarrow> Returned (getSvgPathFromStroke fmt strokePoints)
           | Thrown e u \<Rightarrow> Thrown e u)) \<and>
   (name \<in> set easingKeys \<longrightarrow> (\<exists>f. (name, f) \<in> set EASINGS \<and> easingAt name = Easing f)) \<and>
   (name \<notin> set easingKeys \<longrightarrow> name \<in> set objectPrototypeKeys \<longrightarrow>
      easingAt name = Inherited name) \<and>
   (name \<notin> set easingKeys \<longrightarrow> name \<notin> set objectPrototypeKeys \<longrightarrow> easingAt name = NoEasing)"
proof (intro conjI impI)
  show "\<exists>opts. getLibOptions tool = Returned opts \<and>
      easing_l opts = easingAt (easing tool) \<and>
      easing_o (start_l opts) = easingAt (easing_tp (start_t tool)) \<and>
      easing_o (end_l opts) = easingAt (easing_tp (end_t tool)) \<and>
      generatePreviewPath fmt getStroke pts tool
        = (case getStroke pts opts of
             Returned strokePoints \<Rightarrow> Returned (getSvgPathFromStroke fmt strokePoints)
           | Thrown e u \<Rightarrow> Thrown e u)"
    by (simp add: getLibOptions_def generatePreviewPath_def split: outcome.splits)
  show "easingAt name = Inherited name"
    if "name \<notin> set easingKeys" "name \<in> set objectPrototypeKeys"
    using that by (simp add: easingAt_def map_of_EASINGS_keys [symmetric])
qed (simp_all add: easingAt_unknown easingAt_known)

theorem getLibOptions_never_raises_witness:
  "''bogus'' \<notin> set easingKeys \<and> ''bogus'' \<notin> set objectPrototypeKeys \<and>
   easingAt ''bogus'' = NoEasing \<and>
   ''__proto__'' \<notin> set easingKeys \<and> ''__proto__'' \<in> set objectPrototypeKeys \<and>
   easingAt ''__proto__'' = Inherited ''__proto__'' \<and>
   ''easeInExpo'' \<in> set easingKeys \<and>
   (\<exists>f. (''easeInExpo'', f) \<in> set EASINGS \<and> easingAt ''easeInExpo'' = Easing f) \<and>
   (\<exists>opts. getLibOptions (getDefaultTool ''#eb454a'' 16 1 \<lparr>easing := ''bogus''\<rparr>) = Returned opts \<and>
      easing_l opts = NoEasing) \<and>
   (\<forall>fmt pts.
      generatePreviewPath fmt (\<lambda>p opts. Returned p) pts
          (getDefaultTool ''#eb454a'' 16 1 \<lparr>easing := ''bogus''\<rparr>)
        = Returned (getSvgPathFromStroke fmt pts)) \<and>
   (\<forall>fmt pts.
      generatePreviewPath fmt (\<lambda>p opts. Thrown ''TypeError'' ()) pts
          (getDefaultTool ''#eb454a'' 16 1 \<lparr>easing := ''__proto__''\<rparr>)
        = Thrown ''TypeError'' ())"
proof -
  have h: "''bogus'' \<notin> set easingKeys" "''bogus'' \<notin> set objectPrototypeKeys"
    "''__proto__'' \<notin> set easingKeys" "''__proto__'' \<in> set objectPrototypeKeys"
    "''easeInExpo'' \<in> set easingKeys"
    by (simp_all add: easingKeys_eq objectPrototypeKeys_def)
  have e: "easing (getDefaultTool ''#eb454a'' 16 1 \<lparr>easing := ''bogus''\<rparr>) = ''bogus''"
    by simp
  from h have b: "easingAt ''bogus'' = NoEasing"
    using getLibOptions_never_raises [where name = "''bogus''"] by blast
  from h have i: "easingAt ''__proto__'' = Inherited ''__proto__''"
    using getLibOptions_never_raises [where name = "''__proto__''"] by blast
  from h have k: "\<exists>f. (''easeInExpo'', f) \<in> set EASINGS \<and> easingAt ''easeInExpo'' = Easing f"
    using getLibOptions_never_raises [where name = "''easeInExpo''"] by blast
  have o: "\<exists>opts. getLibOptions (getDefaultTool ''#eb454a'' 16 1 \<lparr>easing := ''bogus''\<rparr>)
      = Returned opts \<and> easing_l opts = NoEasing"
    using getLibOptions_never_raises
            [where tool = "getDefaultTool ''#eb454a'' 16 1 \<lparr>easing := ''bogus''\<rparr>"]
    by (simp only: e b) blast
  have r: "generatePreviewPath fmt (\<lambda>p opts. Returned p) pts
          (getDefaultTool ''#eb454a'' 16 1 \<lparr>easing := ''bogus''\<rparr>)
        = Returned (getSvgPathFromStroke fmt pts)" for fmt pts
    using getLibOptions_never_raises
            [where tool = "getDefaultTool ''#eb454a'' 16 1 \<lparr>easing := ''bogus''\<rparr>"
               and getStroke = "\<lambda>p opts. Returned p" and fmt = fmt and pts = pts]
    by auto
  have t: "generatePreviewPath fmt (\<lambda>p opts. Thrown ''TypeError'' ()) pts
          (getDefaultTool ''#eb454a'' 16 1 \<lparr>easing := ''__proto__''\<rparr>)
        = Thrown ''TypeError'' ()" for fmt pts
    using getLibOptions_never_raises
            [where tool = "getDefaultTool ''#eb454a'' 16 1 \<lparr>easing := ''__proto__''\<rparr>"
               and getStroke = "\<lambda>p opts. Thrown ''TypeError'' ()" and fmt = fmt and pts = pts]
    by auto
  from h b i k o r t show ?thesis
    by blast
qed

subsection \<open>A tap\<close>

text \<open>
  C8. The code at a tap: on the freshly created component with the first pen active, a
  pointer-down at (10, 10) with pressure 0.5 followed by pointer-up commits one stroke that
  holds the single sample and whose path is the empty string.
\<close>

theorem tap_commits_empty_path:
  "onPointerUp (onPointerDown \<lparr>rect_left = 0, rect_top = 0\<rparr> initialComponent
       \<lparr>clientX = 10, clientY = 10, pressure = 0.5, buttons = 1\<rparr>)
     = initialComponent
         \<lparr>allStrokes :=
            [\<lparr>points = [[10, 10, 0.5]], path = '''', color = ''#eb454a'', opacity = Num 1,
              outlineColor = ''#9747ff'', outlineWidth = Num 0\<rparr>]\<rparr>"
  by (simp add: onPointerUp_def onPointerDown_def initialComponent_def getCoords_def
        defaultTools_def getDefaultTool_def)

subsection \<open>Decode\<close>

declare ends.simps(4) [simp del] ends.simps(5) [simp del]





declare match_all.simps [simp del]















declare extract_loop.simps [simp del]





lemma extractPointsFromPath_example:
  "extractPointsFromPath ''M1 2 Q3 4 5 6 Z'' = [[1, 2, 0.5], [3, 4, 0.5], [5, 6, 0.5]]"
  by code_simp






subsection \<open>Import\<close>

lemma foldl_snoc_concat:
  "foldl (\<lambda>acc x. acc @ f x) init xs = init @ concat (map f xs)"
  by (induction xs arbitrary: init) simp_all

lemma parseSVGContent_concat:
  "svgPaths svgContent = Some paths \<Longrightarrow>
     parseSVGContent svgPaths svgContent = concat (map strokeOfPath paths)"
  by (simp add: parseSVGContent_def foldl_snoc_concat)

lemma parseSVGContent_invalid:
  "svgPaths svgContent = None \<Longrightarrow> parseSVGContent svgPaths svgContent = []"
  by (simp add: parseSVGContent_def)

lemma loadSVGContent_invalid:
  "svgPaths svgContent = None \<Longrightarrow>
     loadSVGContent svgPaths c svgContent = c\<lparr>allStrokes := [], redoStack := []\<rparr>"
  by (simp add: loadSVGContent_def parseSVGContent_invalid)

lemma loadSVGContent_valid:
  "svgPaths svgContent = Some paths \<Longrightarrow>
     loadSVGContent svgPaths c svgContent
       = c\<lparr>allStrokes := concat (map strokeOfPath paths), redoStack := []\<rparr>"
  by (simp add: loadSVGContent_def parseSVGContent_concat)

text \<open>
  C2. The code at an import, with one stroke \<open>A\<close> committed before. Importing a text
  that has no \<open>svg\<close> element, for which \<open>parseSVGContent\<close> reports an invalid file
  and returns no strokes, leaves the committed stack empty: \<open>A\<close> is removed. The same
  happens for an SVG document without \<open>path\<close> elements, and after the import of a
  document with one path the stack holds that path's stroke alone.
\<close>

theorem invalid_import_empties_committed:
  "(let A = \<lparr>points = [[0, 0, 0.5]], path = ''M 0 0 Z'', color = ''#eb454a'', opacity = Num 1,
             outlineColor = ''#9747ff'', outlineWidth = Num 0\<rparr>;
        c = initialComponent\<lparr>allStrokes := [A]\<rparr>
    in allStrokes c = [A] \<and>
       allStrokes (loadSVGContent (\<lambda>_. None) c ''not an svg'') = [] \<and>
       allStrokes (loadSVGContent (\<lambda>_. Some []) c ''<svg></svg>'') = [] \<and>
       allStrokes (loadSVGContent (\<lambda>_. Some [[(''d'', ''M1 2 Q3 4 5 6 Z'')]]) c
                     ''<svg>...</svg>'')
         = [\<lparr>points = [[1, 2, 0.5], [3, 4, 0.5], [5, 6, 0.5]], path = ''M1 2 Q3 4 5 6 Z'',
              color = ''#000000'', opacity = Num 1,
              outlineColor = ''#000000'', outlineWidth = Num 0\<rparr>])"
proof -
  have p: "parseFloat ''1'' = Num 1" "parseFloat ''0'' = Num 0"
    by code_simp+
  show ?thesis
    by (simp add: Let_def loadSVGContent_invalid loadSVGContent_valid strokeOfPath_def
          getAttribute_def or_else_def initialComponent_def extractPointsFromPath_example p)
qed

end
